theory Spec2Isabelle
  imports Main
begin

section \<open>Plain objects\<close>

text \<open>
  \<open>PlainObject\<close> (imported from \<open>@finos/legend-shared\<close>) is the type of the raw payload an
  unknown element keeps. It is only a compile-time annotation, so the payload is modelled
  as an arbitrary JSON value. An object is an association list, in the order of its keys.
  The payload is opaque to the element and no arithmetic is done on its numbers; they are
  integers here.
\<close>

datatype json =
    JNull
  | JBool bool
  | JNumber int
  | JString string
  | JArray "json list"
  | JObject "(string \<times> json) list"

section \<open>The unknown packageable element\<close>

text \<open>
  \<open>class INTERNAL__UnknownPackageableElement extends PackageableElement\<close> declares the
  field \<open>content\<close>; \<open>path\<close> is read from the base class \<open>PackageableElement\<close>.
\<close>

record INTERNAL__UnknownPackageableElement =
  path :: string
  content :: json

text \<open>
  What the class imports for hashing: \<open>hashArray\<close> from \<open>@finos/legend-shared\<close>, the tag
  \<open>CORE_HASH_STRUCTURE.INTERNAL__UNKNOWN_PACKAGEABLE_ELEMENT\<close> and, behind
  \<open>hashObjectWithoutSourceInformation\<close>, a structural hash of plain objects together with
  the test that tells which keys carry source information. Their declarations are in
  other modules, so they are parameters of the model. The three entries the getter puts
  in the array are strings, hence \<open>hashArray\<close> is applied to a list of strings.
\<close>

record HashUtils =
  hashArray :: "string list \<Rightarrow> string"
  hashObject :: "json \<Rightarrow> string"
  isSourceInformationKey :: "string \<Rightarrow> bool"
  INTERNAL__UNKNOWN_PACKAGEABLE_ELEMENT :: string

text \<open>
  Modelled from the spec: the stripping done inside \<open>hashObjectWithoutSourceInformation\<close>
  (module \<open>Core_HashUtils\<close>, not among the sources), "with all source-position/diagnostic
  information stripped". Every entry of every object, at any depth, whose key carries
  source information is dropped; everything else is kept as it is, in order.
\<close>

fun pruneSourceInformation :: "(string \<Rightarrow> bool) \<Rightarrow> json \<Rightarrow> json" where
  "pruneSourceInformation isSrc (JObject kvs) =
     JObject (map (\<lambda>kv. (fst kv, pruneSourceInformation isSrc (snd kv)))
                (filter (\<lambda>kv. \<not> isSrc (fst kv)) kvs))"
| "pruneSourceInformation isSrc (JArray vs) = JArray (map (pruneSourceInformation isSrc) vs)"
| "pruneSourceInformation isSrc v = v"

text \<open>
  Modelled from the spec: \<open>hashObjectWithoutSourceInformation\<close> is imported from
  \<open>Core_HashUtils\<close>, which is not among the sources. The spec describes its result as
  "a structural hash of its semantic content with all source-position/diagnostic
  information stripped": the structural hash of the pruned payload.
\<close>

definition hashObjectWithoutSourceInformation :: "HashUtils \<Rightarrow> json \<Rightarrow> string" where
  "hashObjectWithoutSourceInformation H val =
     hashObject H (pruneSourceInformation (isSourceInformationKey H) val)"

text \<open>
  \<^verbatim>\<open>
  protected override get _elementHashCode(): string {
    return hashArray([
      CORE_HASH_STRUCTURE.INTERNAL__UNKNOWN_PACKAGEABLE_ELEMENT,
      this.path,
      hashObjectWithoutSourceInformation(this.content),
    ]);
  }
  \<close>
  The array handed to \<open>hashArray\<close> is a definition of its own, so that statements can speak
  about it. (An Isabelle name cannot start with an underscore.)
\<close>

definition elementHashInput :: "HashUtils \<Rightarrow> INTERNAL__UnknownPackageableElement \<Rightarrow> string list" where
  "elementHashInput H this =
     [INTERNAL__UNKNOWN_PACKAGEABLE_ELEMENT H, path this,
      hashObjectWithoutSourceInformation H (content this)]"

definition elementHashCode :: "HashUtils \<Rightarrow> INTERNAL__UnknownPackageableElement \<Rightarrow> string" where
  "elementHashCode H this = hashArray H (elementHashInput H this)"

text \<open>
  A JavaScript value that has been thrown. A call either returns a value or throws:
  \<open>Inl\<close> is the throw.
\<close>

datatype thrown = Thrown string

text \<open>
  The getter as a call. What it runs in: the elements, reached by reference (an
  element does not hold its own address, \<open>this\<close> is one), and whatever else the imported
  functions keep between calls.
\<close>

record 'h World =
  elements :: "nat \<Rightarrow> INTERNAL__UnknownPackageableElement"
  hidden :: 'h

text \<open>
  The imported functions as calls: given the argument and the world, a call returns a
  string or throws, and leaves a world. Nothing is assumed of them at this point: a call
  may write to any element (the content is handed over by reference) and to the hidden
  part, and may answer differently from one world to the next.
\<close>

record 'h HashImports =
  hashArray_call :: "string list \<Rightarrow> 'h World \<Rightarrow> (thrown + string) \<times> 'h World"
  hashObjectWithoutSourceInformation_call :: "json \<Rightarrow> 'h World \<Rightarrow> (thrown + string) \<times> 'h World"
  INTERNAL__UNKNOWN_PACKAGEABLE_ELEMENT_tag :: string


text \<open>
  Modelled from the spec: \<open>hashArray\<close> and \<open>hashObjectWithoutSourceInformation\<close> are not
  among the sources. The spec says of hashing that it is a "pure, non-blocking,
  single-threaded" computation "over in-memory structures" that "holds no shared mutable
  resources", and that the structural hash "must be a pure function of the element's own
  content plus its path". An imported call is pure when it leaves the world as it found
  it and its outcome depends on its argument only.
\<close>

definition pureImport :: "('x \<Rightarrow> 'h World \<Rightarrow> (thrown + string) \<times> 'h World) \<Rightarrow> bool" where
  "pureImport f = (\<forall>x w w'. snd (f x w) = w \<and> fst (f x w) = fst (f x w'))"

text \<open>
  The functions of a \<open>HashUtils\<close> as calls: they return what the function gives and touch
  nothing.
\<close>

definition pureImports :: "HashUtils \<Rightarrow> 'h HashImports" where
  "pureImports H =
     \<lparr> hashArray_call = (\<lambda>arr w. (Inr (hashArray H arr), w)),
       hashObjectWithoutSourceInformation_call =
         (\<lambda>val w. (Inr (hashObjectWithoutSourceInformation H val), w)),
       INTERNAL__UNKNOWN_PACKAGEABLE_ELEMENT_tag = INTERNAL__UNKNOWN_PACKAGEABLE_ELEMENT H \<rparr>"

text \<open>
  Assigning a property of a JavaScript object: an existing key keeps its place and takes
  the new value, a new key goes to the end.
\<close>

fun setProperty :: "string \<Rightarrow> json \<Rightarrow> (string \<times> json) list \<Rightarrow> (string \<times> json) list" where
  "setProperty k v [] = [(k, v)]"
| "setProperty k v (kv # kvs) = (if fst kv = k then (k, v) # kvs else kv # setProperty k v kvs)"

section \<open>Visitor dispatch\<close>

text \<open>
  \<open>PackageableElementVisitor<T>\<close> is declared in the module \<open>PackageableElement\<close>, which is
  not among the sources. The class calls one of its methods, \<open>visit_INTERNAL__UnknownPackageableElement\<close>;
  the interface's remaining methods (one per known element variant) are kept as a family
  indexed by method name. A method runs in the visitor's own state \<open>'s\<close>, which it may
  change, and returns a \<open>T\<close> or throws.
\<close>

record ('s, 'a) PackageableElementVisitor =
  visit_INTERNAL__UnknownPackageableElement ::
    "INTERNAL__UnknownPackageableElement \<Rightarrow> 's \<Rightarrow> (thrown + 'a) \<times> 's"
  visit_other :: "string \<Rightarrow> 's \<Rightarrow> (thrown + 'a) \<times> 's"

text \<open>
  \<^verbatim>\<open>
  accept_PackageableElementVisitor<T>(visitor: PackageableElementVisitor<T>): T {
    return visitor.visit_INTERNAL__UnknownPackageableElement(this);
  }
  \<close>
  There is no \<open>try\<close> around the call: what the method throws, \<open>accept\<close> throws.
\<close>

definition accept_PackageableElementVisitor ::
  "INTERNAL__UnknownPackageableElement \<Rightarrow> ('s, 'a) PackageableElementVisitor \<Rightarrow> 's \<Rightarrow> (thrown + 'a) \<times> 's" where
  "accept_PackageableElementVisitor this visitor = visit_INTERNAL__UnknownPackageableElement visitor this"

text \<open>
  To observe which methods a call of \<open>accept\<close> invokes, a visitor is wrapped so that every
  method, besides doing what it did, appends its own name to a log kept next to the
  visitor's state.
\<close>

datatype visitor_method = Visit_INTERNAL__UnknownPackageableElement | Visit_other string

definition logged ::
  "visitor_method \<Rightarrow> ('s \<Rightarrow> (thrown + 'a) \<times> 's) \<Rightarrow> 's \<times> visitor_method list \<Rightarrow> (thrown + 'a) \<times> ('s \<times> visitor_method list)" where
  "logged m f sl = (fst (f (fst sl)), (snd (f (fst sl)), snd sl @ [m]))"

definition recording ::
  "('s, 'a) PackageableElementVisitor \<Rightarrow> ('s \<times> visitor_method list, 'a) PackageableElementVisitor" where
  "recording visitor =
     \<lparr> visit_INTERNAL__UnknownPackageableElement =
         (\<lambda>element. logged Visit_INTERNAL__UnknownPackageableElement
                       (visit_INTERNAL__UnknownPackageableElement visitor element)),
       visit_other = (\<lambda>name. logged (Visit_other name) (visit_other visitor name)) \<rparr>"

section \<open>Ingestion of payloads\<close>

text \<open>
  A packageable element is one of the variants the build knows (left abstract, \<open>'k\<close>) or
  the unknown-element fallback.
\<close>

datatype 'k PackageableElement =
    Known 'k
  | Unknown INTERNAL__UnknownPackageableElement

text \<open>
  What the deserializer is given: how to read the kind discriminator of a payload, the
  deserializers of the known kinds, and how the path of an element is read off its
  payload.
\<close>

record 'k Ingestion =
  discriminator :: "json \<Rightarrow> string option"
  knownVariants :: "string \<Rightarrow> (json \<Rightarrow> thrown + 'k) option"
  elementPath :: "json \<Rightarrow> string"

text \<open>
  Modelled from the spec: the deserializer of the graph is not among the sources. The
  spec says that it "constructs a concrete element variant from a structured payload;
  when no known variant matches the payload's discriminator, it must construct the
  unknown-element fallback with the raw payload attached verbatim".
\<close>

definition unknownFallback :: "'k Ingestion \<Rightarrow> json \<Rightarrow> INTERNAL__UnknownPackageableElement" where
  "unknownFallback D payload = \<lparr> path = elementPath D payload, content = payload \<rparr>"

definition deserialize :: "'k Ingestion \<Rightarrow> json \<Rightarrow> thrown + 'k PackageableElement" where
  "deserialize D payload =
     (case discriminator D payload of
        None \<Rightarrow> Inr (Unknown (unknownFallback D payload))
      | Some kind \<Rightarrow>
          (case knownVariants D kind of
             None \<Rightarrow> Inr (Unknown (unknownFallback D payload))
           | Some fromJson \<Rightarrow>
               (case fromJson payload of
                  Inl error \<Rightarrow> Inl error
                | Inr element \<Rightarrow> Inr (Known element))))"

text \<open>
  Modelled from the spec: the serializer of the graph is not among the sources. The spec
  calls the fallback "a degrade-gracefully variant preserving unrecognized content
  verbatim" whose raw content goes through serialization as it is: the unknown element
  is written out as its \<open>content\<close>. The serializer of the known variants is a parameter.
\<close>

definition serialize :: "('k \<Rightarrow> json) \<Rightarrow> 'k PackageableElement \<Rightarrow> json" where
  "serialize toJson element =
     (case element of Known k \<Rightarrow> toJson k | Unknown u \<Rightarrow> content u)"

section \<open>Registering a query as a service\<close>

text \<open>
  \<open>ActionState\<close> is imported from \<open>@finos/legend-shared\<close>. The modal reads
  \<open>isInProgress\<close> and calls \<open>inProgress()\<close>, \<open>reset()\<close> and \<open>setMessage(..)\<close>; the state is
  modelled by the in-progress flag and the message, \<open>None\<close> being \<open>undefined\<close>.
\<close>

record ActionState =
  isInProgress :: bool
  message :: "string option"

definition inProgress :: "ActionState \<Rightarrow> ActionState" where
  "inProgress st = st\<lparr>isInProgress := True\<rparr>"

definition reset :: "ActionState \<Rightarrow> ActionState" where
  "reset st = st\<lparr>isInProgress := False\<rparr>"

definition setMessage :: "string option \<Rightarrow> ActionState \<Rightarrow> ActionState" where
  "setMessage val st = st\<lparr>message := val\<rparr>"

text \<open>
  \<open>guaranteeNonNullable\<close> (from \<open>@finos/legend-shared\<close>) returns its argument unless it is
  \<open>null\<close> or \<open>undefined\<close>, and throws then.
\<close>

definition guaranteeNonNullable :: "'a option \<Rightarrow> thrown + 'a" where
  "guaranteeNonNullable val =
     (case val of None \<Rightarrow> Inl (Thrown ''Value is nullable'') | Some v \<Rightarrow> Inr v)"

record ProjectData =
  groupId :: string
  artifactId :: string

record QueryInfo =
  queryContent :: string
  mapping :: string
  runtime :: string

record Query =
  query_id :: string
  query_groupId :: string
  query_artifactId :: string

record ServiceRegistrationResult =
  serviceInstanceId :: string
  pattern :: string

record ServiceRegistrationEnvironmentConfig =
  env :: string
  managementUrl :: string
  modes :: "string list"

text \<open>
  The alert shown after a registration: its message, prompt and type, and the label and
  type of each action. The handler of the first action (it opens the management page of
  the service) runs when the user picks the action, not during \<open>registerService\<close>.
\<close>

record ActionAlertInfo =
  alertMessage :: string
  prompt :: string
  alertType :: string
  actions :: "(string \<times> string) list"

text \<open>
  The values of the component's \<open>useState\<close> hooks that the closure \<open>registerService\<close> has
  captured at the render it belongs to. \<open>registrationState\<close> is not among them: it is one
  mutable object shared by all renders and passed separately.
\<close>

record ModalState =
  serviceEnv :: "string option"
  servicePath :: string
  activateService :: bool
  servicePattern :: string
  owners :: "string list"
  isServicePathValid :: bool
  isServiceUrlPatternValid :: bool

text \<open>
  \<open>selectedEnvOption = serviceEnv ? {label: serviceEnv.toUpperCase(), value: serviceEnv} : null\<close>.
  An empty string is falsy. Only \<open>value\<close> is read by \<open>registerService\<close>; the label is for
  display and is left out.
\<close>

definition selectedEnvOption :: "ModalState \<Rightarrow> string option" where
  "selectedEnvOption ms =
     (case serviceEnv ms of
        None \<Rightarrow> None
      | Some e \<Rightarrow> if e = [] then None else Some e)"

text \<open>
  Everything \<open>registerService\<close> calls outside the component: the depot server client, the
  graph manager, the application store, \<open>createServiceElement\<close> and the assertions of
  \<open>@finos/legend-shared\<close>, with the configuration and constants it reads. Each call
  returns or throws; a call without a result is \<open>None\<close> when it returns and \<open>Some e\<close>
  when it throws \<open>e\<close>. A service element is of the abstract type \<open>'svc\<close>.
\<close>

record 'svc Collaborators =
  query :: Query
  serverRegistrationOptions :: "ServiceRegistrationEnvironmentConfig list"
  LATEST_PROJECT_REVISION :: string
  SEMI_INTERACTIVE :: string
  SERVICE_REGISTRATION_FAILURE :: string
  getProject :: "string \<Rightarrow> string \<Rightarrow> thrown + json"
  ProjectData_fromJson :: "json \<Rightarrow> thrown + ProjectData"
  getQueryInfo :: "string \<Rightarrow> thrown + QueryInfo"
  createServiceElement ::
    "string \<Rightarrow> string \<Rightarrow> string list \<Rightarrow> string \<Rightarrow> string \<Rightarrow> string \<Rightarrow> thrown + 'svc"
  graphManager_registerService ::
    "'svc \<Rightarrow> string \<Rightarrow> string \<Rightarrow> string \<Rightarrow> string \<Rightarrow> string \<Rightarrow> thrown + ServiceRegistrationResult"
  graphManager_activateService :: "string \<Rightarrow> string \<Rightarrow> thrown option"
  assertNonEmptyString :: "string \<Rightarrow> string \<Rightarrow> thrown option"
  setActionAlertInfo :: "ActionAlertInfo \<Rightarrow> thrown option"
  assertErrorThrown :: "thrown \<Rightarrow> thrown option"
  log_error :: "string \<Rightarrow> thrown \<Rightarrow> thrown option"
  notifyError :: "thrown \<Rightarrow> thrown option"

text \<open>
  The calls to the servers, the graph manager and the application store that an
  invocation makes, in order. The call of the graph manager's \<open>registerService\<close> carries
  its outcome.
\<close>

datatype 'svc call =
    Call_getProject string string
  | Call_getQueryInfo string
  | Call_createServiceElement string string "string list" string string string
  | Call_registerService 'svc string string string string string "thrown + ServiceRegistrationResult"
  | Call_activateService string string
  | Call_setActionAlertInfo ActionAlertInfo
  | Call_log_error string thrown
  | Call_notifyError thrown

fun isCall_activateService :: "'svc call \<Rightarrow> bool" where
  "isCall_activateService (Call_activateService serverUrl instanceId) = True"
| "isCall_activateService c = False"

fun isCall_registerService :: "'svc call \<Rightarrow> bool" where
  "isCall_registerService (Call_registerService service g a v serverUrl mode returned) = True"
| "isCall_registerService c = False"

definition concernsRegistration :: "'svc call \<Rightarrow> bool" where
  "concernsRegistration c = (isCall_registerService c \<or> isCall_activateService c)"

text \<open>
  A block of the function body: what it throws (\<open>None\<close> when it completes), the
  registration state and the calls made so far.
\<close>

type_synonym 'svc outcome = "thrown option \<times> ActionState \<times> 'svc call list"

definition thrownBy :: "'svc outcome \<Rightarrow> thrown option" where
  "thrownBy r = fst r"

definition stateAfter :: "'svc outcome \<Rightarrow> ActionState" where
  "stateAfter r = fst (snd r)"

definition callsOf :: "'svc outcome \<Rightarrow> 'svc call list" where
  "callsOf r = snd (snd r)"

text \<open>
  The guard in front of the \<open>try\<close>:
  \<^verbatim>\<open>
  if (registrationState.isInProgress || !servicePath || !servicePattern ||
      !isServicePathValid || !isServiceUrlPatternValid || !selectedEnvOption) { return; }
  \<close>
\<close>

definition guardReturns :: "ModalState \<Rightarrow> ActionState \<Rightarrow> bool" where
  "guardReturns ms registrationState =
     (isInProgress registrationState \<or> servicePath ms = [] \<or> servicePattern ms = [] \<or>
      \<not> isServicePathValid ms \<or> \<not> isServiceUrlPatternValid ms \<or> selectedEnvOption ms = None)"

text \<open>
  The statements of the \<open>try\<close> block after the graph manager's \<open>registerService\<close> has
  returned \<open>serviceRegistrationResult\<close>: the optional activation, the assertion on the
  pattern, the alert.
\<close>

definition afterRegistration ::
  "'svc Collaborators \<Rightarrow> ModalState \<Rightarrow> string \<Rightarrow> ServiceRegistrationResult \<Rightarrow>
   ActionState \<Rightarrow> 'svc call list \<Rightarrow> 'svc outcome" where
  "afterRegistration C ms serverUrl serviceRegistrationResult st tr =
     (let activation =
            (if activateService ms
             then (graphManager_activateService C serverUrl (serviceInstanceId serviceRegistrationResult),
                   setMessage (Some ''Activating service...'') st,
                   tr @ [Call_activateService serverUrl (serviceInstanceId serviceRegistrationResult)])
             else (None, st, tr))
      in case thrownBy activation of
           Some error \<Rightarrow> activation
         | None \<Rightarrow>
             (case assertNonEmptyString C (pattern serviceRegistrationResult)
                     ''Service registration pattern is missing or empty'' of
                Some error \<Rightarrow> (Some error, stateAfter activation, callsOf activation)
              | None \<Rightarrow>
                  (let info = \<lparr> alertMessage =
                                  ''Service with pattern '' @ pattern serviceRegistrationResult @
                                  '' registered '' @ (if activateService ms then ''and activated '' else []),
                                prompt = ''You can now launch and monitor the operation of your service'',
                                alertType = ''STANDARD'',
                                actions = [(''Launch Service'', ''PROCEED''),
                                           (''Close'', ''PROCEED_WITH_CAUTION'')] \<rparr>
                   in (setActionAlertInfo C info, stateAfter activation,
                       callsOf activation @ [Call_setActionAlertInfo info]))))"

text \<open>The \<open>try\<close> block, entered with the selected environment \<open>selectedValue\<close>.\<close>

definition tryBlock ::
  "'svc Collaborators \<Rightarrow> ModalState \<Rightarrow> ProjectData \<Rightarrow> QueryInfo \<Rightarrow> string \<Rightarrow>
   ActionState \<Rightarrow> 'svc call list \<Rightarrow> 'svc outcome" where
  "tryBlock C ms project currentQueryInfo selectedValue st tr =
     (let st1 = inProgress st in
      case guaranteeNonNullable
             (map_option managementUrl
                (find (\<lambda>option. env option = selectedValue) (serverRegistrationOptions C))) of
        Inl error \<Rightarrow> (Some error, st1, tr)
      | Inr serverUrl \<Rightarrow>
          (let versionInput = LATEST_PROJECT_REVISION C;
               st2 = setMessage (Some ''Registering service...'') st1;
               tr1 = tr @ [Call_createServiceElement (servicePath ms) (servicePattern ms) (owners ms)
                             (queryContent currentQueryInfo) (mapping currentQueryInfo)
                             (runtime currentQueryInfo)]
           in case createServiceElement C (servicePath ms) (servicePattern ms) (owners ms)
                     (queryContent currentQueryInfo) (mapping currentQueryInfo)
                     (runtime currentQueryInfo) of
                Inl error \<Rightarrow> (Some error, st2, tr1)
              | Inr service \<Rightarrow>
                  (let returned = graphManager_registerService C service (groupId project)
                                    (artifactId project) versionInput serverUrl (SEMI_INTERACTIVE C);
                       tr2 = tr1 @ [Call_registerService service (groupId project) (artifactId project)
                                      versionInput serverUrl (SEMI_INTERACTIVE C) returned]
                   in case returned of
                        Inl error \<Rightarrow> (Some error, st2, tr2)
                      | Inr serviceRegistrationResult \<Rightarrow>
                          afterRegistration C ms serverUrl serviceRegistrationResult st2 tr2)))"

text \<open>
  The \<open>catch\<close> block. Each of its three calls may throw in its turn, which leaves the
  block.
\<close>

definition catchBlock :: "'svc Collaborators \<Rightarrow> thrown \<Rightarrow> ActionState \<Rightarrow> 'svc call list \<Rightarrow> 'svc outcome" where
  "catchBlock C error st tr =
     (case assertErrorThrown C error of
        Some error' \<Rightarrow> (Some error', st, tr)
      | None \<Rightarrow>
          (let tr1 = tr @ [Call_log_error (SERVICE_REGISTRATION_FAILURE C) error] in
           case log_error C (SERVICE_REGISTRATION_FAILURE C) error of
             Some error' \<Rightarrow> (Some error', st, tr1)
           | None \<Rightarrow> (notifyError C error, st, tr1 @ [Call_notifyError error])))"

text \<open>The \<open>finally\<close> block: \<open>registrationState.reset(); registrationState.setMessage(undefined)\<close>.\<close>

definition finallyBlock :: "ActionState \<Rightarrow> ActionState" where
  "finallyBlock st = setMessage None (reset st)"

text \<open>
  \<open>try { .. } catch (error) { .. } finally { .. }\<close>: the \<open>catch\<close> block runs when the
  \<open>try\<close> block throws, the \<open>finally\<close> block runs in every case, and what the \<open>catch\<close>
  block throws leaves the statement after the \<open>finally\<close> block.
\<close>

definition tryCatchFinally ::
  "'svc Collaborators \<Rightarrow> ModalState \<Rightarrow> ProjectData \<Rightarrow> QueryInfo \<Rightarrow> string \<Rightarrow>
   ActionState \<Rightarrow> 'svc call list \<Rightarrow> 'svc outcome" where
  "tryCatchFinally C ms project currentQueryInfo selectedValue st tr =
     (let tried = tryBlock C ms project currentQueryInfo selectedValue st tr;
          handled = (case thrownBy tried of
                       None \<Rightarrow> tried
                     | Some error \<Rightarrow> catchBlock C error (stateAfter tried) (callsOf tried))
      in (thrownBy handled, finallyBlock (stateAfter handled), callsOf handled))"

text \<open>
  The body of the \<open>async\<close> function that \<open>guardUnhandledError\<close> wraps, run from the
  registration state \<open>registrationState\<close>. Its \<open>await\<close>s are run to completion one after
  the other; what another invocation does meanwhile shows only in the state an invocation
  starts from. What the body throws goes to the wrapper.
\<close>

definition registerService :: "'svc Collaborators \<Rightarrow> ModalState \<Rightarrow> ActionState \<Rightarrow> 'svc outcome" where
  "registerService C ms registrationState =
     (let tr1 = [Call_getProject (query_groupId (query C)) (query_artifactId (query C))] in
      case getProject C (query_groupId (query C)) (query_artifactId (query C)) of
        Inl error \<Rightarrow> (Some error, registrationState, tr1)
      | Inr projectJson \<Rightarrow>
          (case ProjectData_fromJson C projectJson of
             Inl error \<Rightarrow> (Some error, registrationState, tr1)
           | Inr project \<Rightarrow>
               (let tr2 = tr1 @ [Call_getQueryInfo (query_id (query C))] in
                case getQueryInfo C (query_id (query C)) of
                  Inl error \<Rightarrow> (Some error, registrationState, tr2)
                | Inr currentQueryInfo \<Rightarrow>
                    (if guardReturns ms registrationState then (None, registrationState, tr2)
                     else (case selectedEnvOption ms of
                             None \<Rightarrow> (None, registrationState, tr2)
                           | Some selectedValue \<Rightarrow>
                               tryCatchFinally C ms project currentQueryInfo selectedValue
                                 registrationState tr2)))))"

text \<open>
  Whether an invocation gets to the \<open>try\<close> statement: both fetches return and the guard
  does not.
\<close>

definition entersTry :: "'svc Collaborators \<Rightarrow> ModalState \<Rightarrow> ActionState \<Rightarrow> bool" where
  "entersTry C ms registrationState =
     (case getProject C (query_groupId (query C)) (query_artifactId (query C)) of
        Inl error \<Rightarrow> False
      | Inr projectJson \<Rightarrow>
          (case ProjectData_fromJson C projectJson of
             Inl error \<Rightarrow> False
           | Inr project \<Rightarrow>
               (case getQueryInfo C (query_id (query C)) of
                  Inl error \<Rightarrow> False
                | Inr currentQueryInfo \<Rightarrow> \<not> guardReturns ms registrationState)))"

section \<open>Example values\<close>

text \<open>
  Instances of the parameters, for evaluating the definitions on concrete inputs. In
  \<open>toyHashUtils\<close> the array hash joins its entries with commas and the object hash writes
  the value out (numbers in unary); both are functions of their argument.
\<close>

fun toyHashObject :: "json \<Rightarrow> string" where
  "toyHashObject JNull = ''null''"
| "toyHashObject (JBool b) = (if b then ''true'' else ''false'')"
| "toyHashObject (JNumber n) = (if n < 0 then ''-'' else ''+'') @ replicate (nat \<bar>n\<bar>) (CHR ''|'')"
| "toyHashObject (JString s) = ''<'' @ s @ ''>''"
| "toyHashObject (JArray vs) = ''['' @ concat (map (\<lambda>v. toyHashObject v @ '','') vs) @ '']''"
| "toyHashObject (JObject kvs) =
     ''{'' @ concat (map (\<lambda>kv. fst kv @ '':'' @ toyHashObject (snd kv) @ '','') kvs) @ ''}''"

definition toyHashUtils :: HashUtils where
  "toyHashUtils =
     \<lparr> hashArray = (\<lambda>arr. concat (map (\<lambda>x. x @ '','') arr)),
       hashObject = toyHashObject,
       isSourceInformationKey = (\<lambda>k. k = ''sourceInformation''),
       INTERNAL__UNKNOWN_PACKAGEABLE_ELEMENT = ''INTERNAL__UNKNOWN_PACKAGEABLE_ELEMENT'' \<rparr>"

definition fooElement :: INTERNAL__UnknownPackageableElement where
  "fooElement = \<lparr> path = ''model::Foo'', content = JObject [(''bar'', JNumber 1)] \<rparr>"

definition fooAtLine :: "int \<Rightarrow> INTERNAL__UnknownPackageableElement" where
  "fooAtLine n =
     \<lparr> path = ''model::Foo'',
       content = JObject [(''bar'', JNumber 1),
                          (''sourceInformation'', JObject [(''startLine'', JNumber n)])] \<rparr>"


text \<open>
  Two visitors over a counter: one answers with the path of the element and counts the
  visit, the other does not support unknown elements and throws.
\<close>

definition pathVisitor :: "(nat, string) PackageableElementVisitor" where
  "pathVisitor =
     \<lparr> visit_INTERNAL__UnknownPackageableElement = (\<lambda>element n. (Inr (path element), Suc n)),
       visit_other = (\<lambda>name n. (Inr name, Suc n)) \<rparr>"


text \<open>
  An ingestion that knows the kind \<open>class\<close> only, reads the kind from the property
  \<open>_type\<close> and the path from the property \<open>name\<close>.
\<close>

definition stringProperty :: "string \<Rightarrow> json \<Rightarrow> string option" where
  "stringProperty k val =
     (case val of
        JObject kvs \<Rightarrow> (case map_of kvs k of Some (JString s) \<Rightarrow> Some s | _ \<Rightarrow> None)
      | _ \<Rightarrow> None)"

definition exampleIngestion :: "json Ingestion" where
  "exampleIngestion =
     \<lparr> discriminator = stringProperty ''_type'',
       knownVariants = (\<lambda>kind. if kind = ''class'' then Some (\<lambda>payload. Inr payload) else None),
       elementPath = (\<lambda>payload. case stringProperty ''name'' payload of None \<Rightarrow> [] | Some s \<Rightarrow> s) \<rparr>"

definition newKindPayload :: json where
  "newKindPayload =
     JObject [(''_type'', JString ''dataProduct''), (''name'', JString ''Foo''), (''bar'', JNumber 1)]"


text \<open>
  Collaborators that all succeed, with one execution server \<open>dev\<close>; and the same with a
  graph manager whose \<open>registerService\<close> throws.
\<close>

definition exampleCollaborators :: "string Collaborators" where
  "exampleCollaborators =
     \<lparr> query = \<lparr> query_id = ''q1'', query_groupId = ''org.example'', query_artifactId = ''demo'' \<rparr>,
       serverRegistrationOptions =
         [\<lparr> env = ''dev'', managementUrl = ''https://dev/manage'', modes = [''SEMI_INTERACTIVE''] \<rparr>],
       LATEST_PROJECT_REVISION = ''latest'',
       SEMI_INTERACTIVE = ''SEMI_INTERACTIVE'',
       SERVICE_REGISTRATION_FAILURE = ''SERVICE_REGISTRATION_FAILURE'',
       getProject = (\<lambda>g a. Inr (JObject [(''groupId'', JString g), (''artifactId'', JString a)])),
       ProjectData_fromJson = (\<lambda>val.
         case (stringProperty ''groupId'' val, stringProperty ''artifactId'' val) of
           (Some g, Some a) \<Rightarrow> Inr \<lparr> groupId = g, artifactId = a \<rparr>
         | _ \<Rightarrow> Inl (Thrown ''Cannot deserialize project'')),
       getQueryInfo = (\<lambda>i. Inr \<lparr> queryContent = ''|1'', mapping = ''model::M'', runtime = ''model::R'' \<rparr>),
       createServiceElement = (\<lambda>p u os c m r. Inr p),
       graphManager_registerService =
         (\<lambda>svc g a v url mode. Inr \<lparr> serviceInstanceId = ''instance-1'', pattern = ''/demo'' \<rparr>),
       graphManager_activateService = (\<lambda>url i. None),
       assertNonEmptyString = (\<lambda>s msg. if s = [] then Some (Thrown msg) else None),
       setActionAlertInfo = (\<lambda>info. None),
       assertErrorThrown = (\<lambda>error. None),
       log_error = (\<lambda>event error. None),
       notifyError = (\<lambda>error. None) \<rparr>"

definition failingCollaborators :: "string Collaborators" where
  "failingCollaborators =
     exampleCollaborators
       \<lparr> graphManager_registerService := (\<lambda>svc g a v url mode. Inl (Thrown ''Registration failed'')) \<rparr>"

definition exampleModal :: ModalState where
  "exampleModal =
     \<lparr> serviceEnv = Some ''dev'', servicePath = ''model::QueryService'', activateService = True,
       servicePattern = ''/demo'', owners = [], isServicePathValid = True,
       isServiceUrlPatternValid = True \<rparr>"

definition idleState :: ActionState where
  "idleState = \<lparr> isInProgress = False, message = None \<rparr>"

definition busyState :: ActionState where
  "busyState = \<lparr> isInProgress = True, message = Some ''Registering service...'' \<rparr>"

section \<open>The hash code of an unknown element\<close>

lemma pruneSourceInformation_setProperty:
  "isSrc k \<Longrightarrow>
   pruneSourceInformation isSrc (JObject (setProperty k v kvs)) =
   pruneSourceInformation isSrc (JObject kvs)"
  by (induction kvs) auto

text \<open>
  C1. The hash code of an unknown packageable element is the hash of the array of exactly
  three components, in this order: the tag of the unknown-packageable-element kind, the
  path of the element, and the hash of its content without source information.
\<close>

theorem elementHashCode_three_components:
  "elementHashCode H this =
     hashArray H [INTERNAL__UNKNOWN_PACKAGEABLE_ELEMENT H, path this,
                  hashObjectWithoutSourceInformation H (content this)]"
  by (simp add: elementHashCode_def elementHashInput_def)

theorem elementHashCode_three_components_witness:
  "elementHashCode toyHashUtils fooElement =
     hashArray toyHashUtils [''INTERNAL__UNKNOWN_PACKAGEABLE_ELEMENT'', ''model::Foo'',
                             hashObjectWithoutSourceInformation toyHashUtils (JObject [(''bar'', JNumber 1)])]"
  using elementHashCode_three_components [of toyHashUtils fooElement]
  by (simp add: toyHashUtils_def fooElement_def)

text \<open>
  C2. Two unknown elements with equal paths whose contents differ only in what
  \<open>hashObjectWithoutSourceInformation\<close> strips (their contents are equal once source
  information is pruned) have the same hash code.
\<close>

theorem elementHashCode_ignores_source_information:
  assumes "path e1 = path e2"
    and "pruneSourceInformation (isSourceInformationKey H) (content e1) =
         pruneSourceInformation (isSourceInformationKey H) (content e2)"
  shows "elementHashCode H e1 = elementHashCode H e2"
  using assms
  by (simp add: elementHashCode_def elementHashInput_def hashObjectWithoutSourceInformation_def)

theorem elementHashCode_ignores_source_information_witness:
  "path (fooAtLine 3) = path (fooAtLine 40) \<and>
   content (fooAtLine 3) \<noteq> content (fooAtLine 40) \<and>
   elementHashCode toyHashUtils (fooAtLine 3) = elementHashCode toyHashUtils (fooAtLine 40)"
proof -
  have p: "path (fooAtLine 3) = path (fooAtLine 40)"
    by (simp add: fooAtLine_def)
  have c: "pruneSourceInformation (isSourceInformationKey toyHashUtils) (content (fooAtLine 3)) =
           pruneSourceInformation (isSourceInformationKey toyHashUtils) (content (fooAtLine 40))"
    by (simp add: fooAtLine_def toyHashUtils_def)
  have d: "content (fooAtLine 3) \<noteq> content (fooAtLine 40)"
    by (simp add: fooAtLine_def)
  from elementHashCode_ignores_source_information [OF p c] p d show ?thesis
    by simp
qed

text \<open>
  Changing only a source-information property of the content leaves the hash code as it
  was.
\<close>

lemma elementHashCode_setProperty_source_information:
  assumes "isSourceInformationKey H k" and "content e = JObject kvs"
  shows "elementHashCode H (e\<lparr>content := JObject (setProperty k v kvs)\<rparr>) = elementHashCode H e"
  using assms pruneSourceInformation_setProperty [of "isSourceInformationKey H" k v kvs]
  by (simp add: elementHashCode_def elementHashInput_def hashObjectWithoutSourceInformation_def)

text \<open>
  A digest with finitely many values cannot tell all paths apart: for every content
  there are two different paths with the same hash code.
\<close>

lemma elementHashCode_collides_on_paths:
  assumes "finite (range (hashArray H))"
  shows "\<exists>p1 p2. p1 \<noteq> p2 \<and>
           elementHashCode H \<lparr>path = p1, content = c\<rparr> = elementHashCode H \<lparr>path = p2, content = c\<rparr>"
proof (rule ccontr)
  assume none: "\<not> ?thesis"
  let ?f = "\<lambda>p. elementHashCode H \<lparr>path = p, content = c\<rparr>"
  from none have "inj ?f"
    by (auto simp: inj_on_def)
  moreover have "range ?f \<subseteq> range (hashArray H)"
    by (auto simp: elementHashCode_def)
  with assms have "finite (range ?f)"
    by (rule finite_subset [rotated])
  ultimately have "finite (UNIV :: string set)"
    by (rule finite_imageD [rotated])
  then show False
    by (simp add: infinite_UNIV_listI)
qed

text \<open>
  The path is a component of the array that is hashed: elements with different paths
  hand different arrays to \<open>hashArray\<close>.
\<close>

lemma elementHashInput_path:
  "path e1 \<noteq> path e2 \<Longrightarrow> elementHashInput H e1 \<noteq> elementHashInput H e2"
  by (simp add: elementHashInput_def)


lemma pureImports_pure:
  "pureImport (hashArray_call (pureImports H)) \<and>
   pureImport (hashObjectWithoutSourceInformation_call (pureImports H))"
  by (simp add: pureImport_def pureImports_def)




section \<open>Visitor dispatch on an unknown element\<close>

text \<open>
  C4. \<open>accept_PackageableElementVisitor\<close> on an unknown element does what the visitor's
  \<open>visit_INTERNAL__UnknownPackageableElement\<close> does on that element, result and effect;
  and under a recording visitor the log of the call holds that one method and nothing
  else.
\<close>

theorem accept_invokes_the_unknown_element_method_once:
  "accept_PackageableElementVisitor this visitor s =
     visit_INTERNAL__UnknownPackageableElement visitor this s \<and>
   accept_PackageableElementVisitor this (recording visitor) (s, []) =
     (fst (visit_INTERNAL__UnknownPackageableElement visitor this s),
      snd (visit_INTERNAL__UnknownPackageableElement visitor this s),
      [Visit_INTERNAL__UnknownPackageableElement])"
  by (simp add: accept_PackageableElementVisitor_def recording_def logged_def)

theorem accept_invokes_the_unknown_element_method_once_witness:
  "accept_PackageableElementVisitor fooElement pathVisitor 0 = (Inr ''model::Foo'', 1) \<and>
   accept_PackageableElementVisitor fooElement (recording pathVisitor) (0, []) =
     (Inr ''model::Foo'', 1, [Visit_INTERNAL__UnknownPackageableElement])"
  using accept_invokes_the_unknown_element_method_once [of fooElement pathVisitor 0]
  by (simp add: pathVisitor_def fooElement_def)

section \<open>Unrecognized kinds\<close>

text \<open>
  C5. A payload whose kind discriminator is not one of the known kinds is deserialized
  without error to an unknown element that holds the payload as its content; written
  out again it is the payload, and reading that back gives the same element.
\<close>

theorem unknown_kind_round_trip:
  assumes "discriminator D payload = Some kind" and "knownVariants D kind = None"
  shows "\<exists>u. deserialize D payload = Inr (Unknown u) \<and> content u = payload \<and>
             serialize toJson (Unknown u) = payload \<and>
             deserialize D (serialize toJson (Unknown u)) = Inr (Unknown u)"
  using assms by (simp add: deserialize_def serialize_def unknownFallback_def)

theorem unknown_kind_round_trip_witness:
  "discriminator exampleIngestion newKindPayload = Some ''dataProduct'' \<and>
   knownVariants exampleIngestion ''dataProduct'' = None \<and>
   (\<exists>u. deserialize exampleIngestion newKindPayload = Inr (Unknown u) \<and>
        content u = newKindPayload \<and>
        serialize id (Unknown u) = newKindPayload \<and>
        deserialize exampleIngestion (serialize id (Unknown u)) = Inr (Unknown u))"
proof -
  have d: "discriminator exampleIngestion newKindPayload = Some ''dataProduct''"
    by (simp add: exampleIngestion_def newKindPayload_def stringProperty_def)
  have k: "knownVariants exampleIngestion ''dataProduct'' = None"
    by (simp add: exampleIngestion_def)
  from unknown_kind_round_trip [OF d k, of id] d k show ?thesis
    by blast
qed




section \<open>The registration of a service\<close>

lemma callsOf_triple: "callsOf (x, st, tr) = tr"
  by (simp add: callsOf_def)

lemma finallyBlock_idle: "\<not> isInProgress (finallyBlock st) \<and> message (finallyBlock st) = None"
  by (simp add: finallyBlock_def reset_def setMessage_def)

lemma stateAfter_tryCatchFinally:
  "stateAfter (tryCatchFinally C ms project qi sel st tr) =
     finallyBlock (stateAfter (case thrownBy (tryBlock C ms project qi sel st tr) of
        None \<Rightarrow> tryBlock C ms project qi sel st tr
      | Some error \<Rightarrow> catchBlock C error (stateAfter (tryBlock C ms project qi sel st tr))
                       (callsOf (tryBlock C ms project qi sel st tr))))"
  by (simp add: tryCatchFinally_def Let_def stateAfter_def)

lemma example_run:
  "registerService exampleCollaborators exampleModal idleState =
     (None, idleState,
      [Call_getProject ''org.example'' ''demo'', Call_getQueryInfo ''q1'',
       Call_createServiceElement ''model::QueryService'' ''/demo'' [] ''|1'' ''model::M'' ''model::R'',
       Call_registerService ''model::QueryService'' ''org.example'' ''demo'' ''latest''
         ''https://dev/manage'' ''SEMI_INTERACTIVE''
         (Inr \<lparr>serviceInstanceId = ''instance-1'', pattern = ''/demo''\<rparr>),
       Call_activateService ''https://dev/manage'' ''instance-1'',
       Call_setActionAlertInfo
         \<lparr>alertMessage = ''Service with pattern /demo registered and activated '',
          prompt = ''You can now launch and monitor the operation of your service'',
          alertType = ''STANDARD'',
          actions = [(''Launch Service'', ''PROCEED''), (''Close'', ''PROCEED_WITH_CAUTION'')]\<rparr>])"
  by (simp add: registerService_def tryCatchFinally_def tryBlock_def afterRegistration_def
      guardReturns_def selectedEnvOption_def guaranteeNonNullable_def finallyBlock_def
      inProgress_def reset_def setMessage_def thrownBy_def stateAfter_def callsOf_def
      exampleCollaborators_def exampleModal_def idleState_def stringProperty_def)

lemma failing_run:
  "registerService failingCollaborators exampleModal idleState =
     (None, idleState,
      [Call_getProject ''org.example'' ''demo'', Call_getQueryInfo ''q1'',
       Call_createServiceElement ''model::QueryService'' ''/demo'' [] ''|1'' ''model::M'' ''model::R'',
       Call_registerService ''model::QueryService'' ''org.example'' ''demo'' ''latest''
         ''https://dev/manage'' ''SEMI_INTERACTIVE'' (Inl (Thrown ''Registration failed'')),
       Call_log_error ''SERVICE_REGISTRATION_FAILURE'' (Thrown ''Registration failed''),
       Call_notifyError (Thrown ''Registration failed'')])"
  by (simp add: registerService_def tryCatchFinally_def tryBlock_def catchBlock_def
      guardReturns_def selectedEnvOption_def guaranteeNonNullable_def finallyBlock_def
      inProgress_def reset_def setMessage_def thrownBy_def stateAfter_def callsOf_def
      failingCollaborators_def exampleCollaborators_def exampleModal_def idleState_def
      stringProperty_def)

lemma busy_run:
  "registerService exampleCollaborators exampleModal busyState =
     (None, busyState, [Call_getProject ''org.example'' ''demo'', Call_getQueryInfo ''q1''])"
  by (simp add: registerService_def guardReturns_def exampleCollaborators_def busyState_def
      stringProperty_def)

lemma example_entersTry:
  "entersTry exampleCollaborators exampleModal idleState \<and>
   entersTry failingCollaborators exampleModal idleState \<and>
   \<not> entersTry exampleCollaborators exampleModal busyState"
  by (simp add: entersTry_def guardReturns_def selectedEnvOption_def failingCollaborators_def
      exampleCollaborators_def exampleModal_def idleState_def busyState_def stringProperty_def)

text \<open>
  C8, as amended. An invocation that gets to the \<open>try\<close> statement ends with the
  registration state not in progress and its message \<open>undefined\<close>, whether the \<open>try\<close> block
  completes, its error is caught, or the \<open>catch\<close> block throws in its turn. An invocation
  that does not get there (a fetch throws, or the guard returns) leaves the registration
  state as it found it.
\<close>

theorem registerService_final_state:
  "(entersTry C ms st \<longrightarrow>
      \<not> isInProgress (stateAfter (registerService C ms st)) \<and>
      message (stateAfter (registerService C ms st)) = None) \<and>
   (\<not> entersTry C ms st \<longrightarrow> stateAfter (registerService C ms st) = st)"
  by (auto simp: entersTry_def registerService_def guardReturns_def stateAfter_tryCatchFinally
      finallyBlock_idle Let_def split: sum.splits option.splits)
     (simp_all add: stateAfter_def)

theorem registerService_final_state_witness:
  "entersTry exampleCollaborators exampleModal idleState \<and>
   stateAfter (registerService exampleCollaborators exampleModal idleState) =
     \<lparr>isInProgress = False, message = None\<rparr> \<and>
   entersTry failingCollaborators exampleModal idleState \<and>
   stateAfter (registerService failingCollaborators exampleModal idleState) =
     \<lparr>isInProgress = False, message = None\<rparr> \<and>
   \<not> entersTry exampleCollaborators exampleModal busyState \<and>
   stateAfter (registerService exampleCollaborators exampleModal busyState) = busyState"
  using registerService_final_state [of exampleCollaborators exampleModal idleState]
    registerService_final_state [of failingCollaborators exampleModal idleState]
    registerService_final_state [of exampleCollaborators exampleModal busyState]
    example_entersTry
  by auto

text \<open>
  The claim as stated fails: an invocation made while a registration is in progress
  returns at the guard, in front of the \<open>try\<close> statement, and ends with the registration
  state still in progress and its message still set.
\<close>

theorem registerService_guard_skips_finally_counterexample:
  "isInProgress (stateAfter (registerService exampleCollaborators exampleModal busyState)) \<and>
   message (stateAfter (registerService exampleCollaborators exampleModal busyState)) =
     Some ''Registering service...''"
  unfolding busy_run stateAfter_def by (simp add: busyState_def)

text \<open>
  C9. When both fetches have returned and the guard holds (a registration is in
  progress, the path or the pattern is empty, one of the two validity flags is off, or
  no environment is selected), the invocation returns without an error, leaves the
  registration state alone, and has made the two fetches and no other call: no service
  element is created, nothing is registered, nothing is activated.
\<close>

theorem registerService_guard_returns:
  assumes "getProject C (query_groupId (query C)) (query_artifactId (query C)) = Inr projectJson"
    and "ProjectData_fromJson C projectJson = Inr project"
    and "getQueryInfo C (query_id (query C)) = Inr currentQueryInfo"
    and "isInProgress st \<or> servicePath ms = [] \<or> servicePattern ms = [] \<or>
         \<not> isServicePathValid ms \<or> \<not> isServiceUrlPatternValid ms \<or> selectedEnvOption ms = None"
  shows "registerService C ms st =
           (None, st, [Call_getProject (query_groupId (query C)) (query_artifactId (query C)),
                       Call_getQueryInfo (query_id (query C))])"
  using assms by (simp add: registerService_def guardReturns_def)

theorem registerService_guard_returns_witness:
  "servicePattern (exampleModal\<lparr>servicePattern := []\<rparr>) = [] \<and>
   registerService exampleCollaborators (exampleModal\<lparr>servicePattern := []\<rparr>) idleState =
     (None, idleState, [Call_getProject ''org.example'' ''demo'', Call_getQueryInfo ''q1''])"
proof -
  let ?C = exampleCollaborators
  let ?ms = "exampleModal\<lparr>servicePattern := []\<rparr>"
  have p: "getProject ?C (query_groupId (query ?C)) (query_artifactId (query ?C)) =
             Inr (JObject [(''groupId'', JString ''org.example''), (''artifactId'', JString ''demo'')])"
    by (simp add: exampleCollaborators_def)
  have j: "ProjectData_fromJson ?C
             (JObject [(''groupId'', JString ''org.example''), (''artifactId'', JString ''demo'')]) =
             Inr \<lparr>groupId = ''org.example'', artifactId = ''demo''\<rparr>"
    by (simp add: exampleCollaborators_def stringProperty_def)
  have q: "getQueryInfo ?C (query_id (query ?C)) =
             Inr \<lparr>queryContent = ''|1'', mapping = ''model::M'', runtime = ''model::R''\<rparr>"
    by (simp add: exampleCollaborators_def)
  have g: "isInProgress idleState \<or> servicePath ?ms = [] \<or> servicePattern ?ms = [] \<or>
           \<not> isServicePathValid ?ms \<or> \<not> isServiceUrlPatternValid ?ms \<or> selectedEnvOption ?ms = None"
    by simp
  from registerService_guard_returns [OF p j q g] show ?thesis
    by (simp add: exampleCollaborators_def)
qed

lemma filter_activations:
  "filter isCall_activateService (filter concernsRegistration tr) = filter isCall_activateService tr"
  by (induction tr) (auto simp: concernsRegistration_def)

lemma catchBlock_registration_calls:
  "filter concernsRegistration (callsOf (catchBlock C error st tr)) = filter concernsRegistration tr"
  by (simp add: catchBlock_def callsOf_def concernsRegistration_def Let_def split: option.splits)

lemma afterRegistration_registration_calls:
  "filter concernsRegistration (callsOf (afterRegistration C ms url r st tr)) =
     filter concernsRegistration tr @
     (if activateService ms then [Call_activateService url (serviceInstanceId r)] else [])"
  by (simp add: afterRegistration_def callsOf_def thrownBy_def stateAfter_def
      concernsRegistration_def Let_def split: option.splits)

lemma tryBlock_registration_calls:
  "filter concernsRegistration (callsOf (tryBlock C ms project qi sel st tr)) =
     filter concernsRegistration tr @
     (case find (\<lambda>option. env option = sel) (serverRegistrationOptions C) of
        None \<Rightarrow> []
      | Some opt \<Rightarrow>
          (case createServiceElement C (servicePath ms) (servicePattern ms) (owners ms)
                  (queryContent qi) (mapping qi) (runtime qi) of
             Inl error \<Rightarrow> []
           | Inr service \<Rightarrow>
               (case graphManager_registerService C service (groupId project) (artifactId project)
                       (LATEST_PROJECT_REVISION C) (managementUrl opt) (SEMI_INTERACTIVE C) of
                  Inl error \<Rightarrow>
                    [Call_registerService service (groupId project) (artifactId project)
                       (LATEST_PROJECT_REVISION C) (managementUrl opt) (SEMI_INTERACTIVE C) (Inl error)]
                | Inr r \<Rightarrow>
                    Call_registerService service (groupId project) (artifactId project)
                       (LATEST_PROJECT_REVISION C) (managementUrl opt) (SEMI_INTERACTIVE C) (Inr r) #
                    (if activateService ms
                     then [Call_activateService (managementUrl opt) (serviceInstanceId r)] else []))))"
  by (simp add: tryBlock_def guaranteeNonNullable_def afterRegistration_registration_calls Let_def
      split: option.splits sum.splits)
     (simp add: callsOf_def concernsRegistration_def)

lemma tryCatchFinally_registration_calls:
  "filter concernsRegistration (callsOf (tryCatchFinally C ms project qi sel st tr)) =
   filter concernsRegistration (callsOf (tryBlock C ms project qi sel st tr))"
  by (simp add: tryCatchFinally_def Let_def callsOf_triple catchBlock_registration_calls
      split: option.splits)

text \<open>
  Of the calls an invocation makes, those of the graph manager's \<open>registerService\<close> and
  \<open>activateService\<close> are: none; or one registration that threw; or one registration that
  returned, with the management URL of the selected environment, followed by one
  activation when the toggle is on and by none when it is off.
\<close>

lemma registerService_registration_calls:
  "filter concernsRegistration (callsOf (registerService C ms st)) = [] \<or>
   (\<exists>svc g a v url m e.
      filter concernsRegistration (callsOf (registerService C ms st)) =
        [Call_registerService svc g a v url m (Inl e)]) \<or>
   (\<exists>svc g a v m r sel opt.
      selectedEnvOption ms = Some sel \<and>
      find (\<lambda>option. env option = sel) (serverRegistrationOptions C) = Some opt \<and>
      filter concernsRegistration (callsOf (registerService C ms st)) =
        Call_registerService svc g a v (managementUrl opt) m (Inr r) #
        (if activateService ms
         then [Call_activateService (managementUrl opt) (serviceInstanceId r)] else []))"
  by (simp add: registerService_def Let_def callsOf_triple concernsRegistration_def
      tryCatchFinally_registration_calls tryBlock_registration_calls
      split: sum.splits option.splits)
     blast

text \<open>
  C10. The graph manager's \<open>activateService\<close> is called once when the toggle is on and the
  graph manager's \<open>registerService\<close> has returned a result, and not at all otherwise; a
  call of it carries the server URL that \<open>registerService\<close> was given, which is the
  management URL of the selected environment, and the service instance id of the result.
\<close>

theorem activateService_called_iff:
  "length (filter isCall_activateService (callsOf (registerService C ms st))) =
     (if activateService ms \<and>
         (\<exists>svc g a v url m r.
            Call_registerService svc g a v url m (Inr r) \<in> set (callsOf (registerService C ms st)))
      then 1 else 0) \<and>
   (\<forall>url i. Call_activateService url i \<in> set (callsOf (registerService C ms st)) \<longrightarrow>
      (\<exists>svc g a v m r sel opt.
         Call_registerService svc g a v url m (Inr r) \<in> set (callsOf (registerService C ms st)) \<and>
         i = serviceInstanceId r \<and>
         selectedEnvOption ms = Some sel \<and>
         find (\<lambda>option. env option = sel) (serverRegistrationOptions C) = Some opt \<and>
         url = managementUrl opt))"
proof -
  let ?t = "callsOf (registerService C ms st)"
  let ?r = "filter concernsRegistration ?t"
  have act: "filter isCall_activateService ?t = filter isCall_activateService ?r"
    by (rule filter_activations [symmetric])
  have mem_act: "\<And>url i. (Call_activateService url i \<in> set ?t) = (Call_activateService url i \<in> set ?r)"
    by (simp add: concernsRegistration_def)
  have mem_reg: "\<And>svc g a v url m x.
      (Call_registerService svc g a v url m x \<in> set ?t) = (Call_registerService svc g a v url m x \<in> set ?r)"
    by (simp add: concernsRegistration_def)
  show ?thesis
    unfolding act mem_act mem_reg using registerService_registration_calls [of C ms st]
    by (elim disjE exE conjE) (simp_all split: if_splits)
qed

theorem activateService_called_iff_witness:
  "activateService exampleModal \<and>
   Call_registerService ''model::QueryService'' ''org.example'' ''demo'' ''latest'' ''https://dev/manage''
      ''SEMI_INTERACTIVE'' (Inr \<lparr>serviceInstanceId = ''instance-1'', pattern = ''/demo''\<rparr>)
     \<in> set (callsOf (registerService exampleCollaborators exampleModal idleState)) \<and>
   length (filter isCall_activateService
             (callsOf (registerService exampleCollaborators exampleModal idleState))) = 1 \<and>
   Call_activateService ''https://dev/manage'' ''instance-1''
     \<in> set (callsOf (registerService exampleCollaborators exampleModal idleState)) \<and>
   length (filter isCall_activateService
             (callsOf (registerService exampleCollaborators (exampleModal\<lparr>activateService := False\<rparr>)
                idleState))) = 0 \<and>
   length (filter isCall_activateService
             (callsOf (registerService failingCollaborators exampleModal idleState))) = 0"
proof -
  have on: "activateService exampleModal"
    by (simp add: exampleModal_def)
  have reg: "Call_registerService ''model::QueryService'' ''org.example'' ''demo'' ''latest''
               ''https://dev/manage'' ''SEMI_INTERACTIVE''
               (Inr \<lparr>serviceInstanceId = ''instance-1'', pattern = ''/demo''\<rparr>)
             \<in> set (callsOf (registerService exampleCollaborators exampleModal idleState))"
    by (simp add: example_run callsOf_def)
  have got: "Call_activateService ''https://dev/manage'' ''instance-1''
             \<in> set (callsOf (registerService exampleCollaborators exampleModal idleState))"
    by (simp add: example_run callsOf_def)
  have one: "length (filter isCall_activateService
               (callsOf (registerService exampleCollaborators exampleModal idleState))) = 1"
  proof -
    from reg have "\<exists>svc g a v url m r.
        Call_registerService svc g a v url m (Inr r)
        \<in> set (callsOf (registerService exampleCollaborators exampleModal idleState))"
      by blast
    with activateService_called_iff [of exampleCollaborators exampleModal idleState] on
    show ?thesis
      by simp
  qed
  have off: "length (filter isCall_activateService
               (callsOf (registerService exampleCollaborators (exampleModal\<lparr>activateService := False\<rparr>)
                  idleState))) = 0"
    using activateService_called_iff
      [of exampleCollaborators "exampleModal\<lparr>activateService := False\<rparr>" idleState]
    by simp
  have failed: "\<not> (\<exists>svc g a v url m r.
        Call_registerService svc g a v url m (Inr r)
        \<in> set (callsOf (registerService failingCollaborators exampleModal idleState)))"
    by (simp add: failing_run callsOf_def)
  have none: "length (filter isCall_activateService
                (callsOf (registerService failingCollaborators exampleModal idleState))) = 0"
    using activateService_called_iff [of failingCollaborators exampleModal idleState] failed
    by simp
  from on reg one got off none show ?thesis
    by blast
qed

end
